theory Spec2Isabelle
  imports Main "HOL-Library.Word" "HOL-Library.Signed_Division"
begin

unbundle bit_operations_syntax

section \<open>Primitive types and result values\<close>

type_synonym u8 = "8 word"
type_synonym u32 = "32 word"
type_synonym i64 = "64 word"
type_synonym u64 = "64 word"
type_synonym u128 = "128 word"

text \<open>
  Modelled from the spec: \<open>Result\<close> and \<open>ResultValue\<close> are declared in common.h, which is
  not among the sources. The spec describes them as explicit result values carrying either a
  success payload or an error indicator; results.h builds \<open>Unimplemented\<close> from a module
  number and an id, and \<open>Result{}\<close> (written \<open>{}\<close> at a return) is success. A \<open>Result\<close>
  tested in a condition is true when it is not success; a \<open>ResultValue\<close> tested in a
  condition is true when it carries a value.
\<close>

datatype Result = Result nat nat

definition Success :: Result where
  "Success = Result 0 0"

definition Unimplemented :: Result where
  "Unimplemented = Result 116 990"

definition Result_bool :: "Result \<Rightarrow> bool" where
  "Result_bool r = (r \<noteq> Success)"

type_synonym 'a ResultValue = "Result + 'a"

fun ResultValue_bool :: "'a ResultValue \<Rightarrow> bool" where
  "ResultValue_bool (Inr v) = True"
| "ResultValue_bool (Inl e) = False"

text \<open>What a C++ function can do besides returning: throw.\<close>

datatype exception = Error_reading_timepoint | out_of_range

section \<open>Time value types (timesrv.h)\<close>

text \<open>
  Modelled from the spec: \<open>constant::NsInSecond\<close> and \<open>constant::NsInDay\<close> come from
  common.h, which is not among the sources; the spec calls the conversions exact truncating
  integer division and multiplication on a signed 64-bit nanosecond count.
\<close>

definition NsInSecond :: i64 where
  "NsInSecond = 1000000000"

definition NsInDay :: i64 where
  "NsInDay = 86400000000000"

text \<open>C++ division of signed 64-bit integers truncates towards zero.\<close>

definition i64_div :: "i64 \<Rightarrow> i64 \<Rightarrow> i64" where
  "i64_div a b = word_of_int (sint a sdiv sint b)"

record TimeSpanType =
  ns :: i64

definition FromNanoseconds :: "i64 \<Rightarrow> TimeSpanType" where
  "FromNanoseconds n = \<lparr>ns = n\<rparr>"

definition FromSeconds :: "i64 \<Rightarrow> TimeSpanType" where
  "FromSeconds s = \<lparr>ns = s * NsInSecond\<rparr>"

definition FromDays :: "i64 \<Rightarrow> TimeSpanType" where
  "FromDays d = \<lparr>ns = d * NsInDay\<rparr>"

definition Nanoseconds :: "TimeSpanType \<Rightarrow> i64" where
  "Nanoseconds t = ns t"

definition Seconds :: "TimeSpanType \<Rightarrow> i64" where
  "Seconds t = i64_div (ns t) NsInSecond"

definition TimeSpanType_greater :: "TimeSpanType \<Rightarrow> TimeSpanType \<Rightarrow> bool" where
  "TimeSpanType_greater lhs rhs = (ns rhs <s ns lhs)"

definition TimeSpanType_less :: "TimeSpanType \<Rightarrow> TimeSpanType \<Rightarrow> bool" where
  "TimeSpanType_less lhs rhs = (ns lhs <s ns rhs)"

definition TimeSpanType_plus :: "TimeSpanType \<Rightarrow> TimeSpanType \<Rightarrow> TimeSpanType" where
  "TimeSpanType_plus lhs rhs = FromNanoseconds (ns lhs + ns rhs)"

definition TimeSpanType_minus :: "TimeSpanType \<Rightarrow> TimeSpanType \<Rightarrow> TimeSpanType" where
  "TimeSpanType_minus lhs rhs = FromNanoseconds (ns lhs - ns rhs)"

text \<open>uuid.h: a UUID is its 128 raw bits, all zero by default; it is valid when not nil.\<close>

record UUID =
  raw :: u128

definition UUID_new :: UUID where
  "UUID_new = \<lparr>raw = 0\<rparr>"

definition Valid :: "UUID \<Rightarrow> bool" where
  "Valid u = (raw u \<noteq> 0)"

record SteadyClockTimePoint =
  timePoint :: i64
  clockSourceId :: UUID

record SystemClockContext =
  steadyTimePoint :: SteadyClockTimePoint
  offset :: u64

section \<open>The time source\<close>

text \<open>
  Modelled from the spec: \<open>util::GetTimeNs()\<close> is declared in common.h, which is not among
  the sources; the spec calls it the underlying monotonic time source, an external
  collaborator whose readings may even go backwards. The readings it will give are the
  function \<open>timeNs\<close> of the environment, \<open>reads\<close> counts the readings taken so far.
\<close>

record TimeSource =
  timeNs :: "nat \<Rightarrow> i64"
  reads :: nat

definition GetTimeNs :: "TimeSource \<Rightarrow> i64 \<times> TimeSource" where
  "GetTimeNs src = (timeNs src (reads src), src\<lparr>reads := Suc (reads src)\<rparr>)"

section \<open>Steady clock cores (timesrv.h, timesrv.cpp)\<close>

record StandardSteadyClockCore =
  testOffset :: TimeSpanType
  internalOffset :: TimeSpanType
  rtcOffset :: TimeSpanType
  cachedValue :: TimeSpanType
  id_Standard :: UUID

record TickBasedSteadyClockCore =
  id_TickBased :: UUID

text \<open>
  Neither class declares a constructor: a core is built from its default member
  initialisers, every one of them \<open>{}\<close>.
\<close>

definition StandardSteadyClockCore_new :: StandardSteadyClockCore where
  "StandardSteadyClockCore_new =
     \<lparr>testOffset = \<lparr>ns = 0\<rparr>, internalOffset = \<lparr>ns = 0\<rparr>, rtcOffset = \<lparr>ns = 0\<rparr>,
      cachedValue = \<lparr>ns = 0\<rparr>, id_Standard = UUID_new\<rparr>"

definition TickBasedSteadyClockCore_new :: TickBasedSteadyClockCore where
  "TickBasedSteadyClockCore_new = \<lparr>id_TickBased = UUID_new\<rparr>"

text \<open>
  \<open>StandardSteadyClockCore::GetRawTimePoint\<close>. The mutex is held for the whole body; the
  model is sequential. The value returned is the local \<open>timePoint\<close>.
\<close>

definition StandardSteadyClockCore_GetRawTimePoint ::
  "StandardSteadyClockCore \<Rightarrow> TimeSource \<Rightarrow> TimeSpanType \<times> StandardSteadyClockCore \<times> TimeSource" where
  "StandardSteadyClockCore_GetRawTimePoint this src =
     (case GetTimeNs src of (t, src') \<Rightarrow>
        (let timePoint = TimeSpanType_plus (FromNanoseconds t) (rtcOffset this);
             this' = (if TimeSpanType_greater timePoint (cachedValue this)
                      then this\<lparr>cachedValue := timePoint\<rparr> else this)
         in (timePoint, this', src')))"

definition StandardSteadyClockCore_GetTimePoint ::
  "StandardSteadyClockCore \<Rightarrow> TimeSource \<Rightarrow>
     SteadyClockTimePoint ResultValue \<times> StandardSteadyClockCore \<times> TimeSource" where
  "StandardSteadyClockCore_GetTimePoint this src =
     (case StandardSteadyClockCore_GetRawTimePoint this src of (rawTp, this', src') \<Rightarrow>
        (Inr \<lparr>timePoint = Seconds rawTp, clockSourceId = id_Standard this'\<rparr>, this', src'))"

definition TickBasedSteadyClockCore_GetTimePoint ::
  "TickBasedSteadyClockCore \<Rightarrow> TimeSource \<Rightarrow>
     SteadyClockTimePoint ResultValue \<times> TickBasedSteadyClockCore \<times> TimeSource" where
  "TickBasedSteadyClockCore_GetTimePoint this src =
     (case GetTimeNs src of (t, src') \<Rightarrow>
        (Inr \<lparr>timePoint = Seconds (FromNanoseconds t), clockSourceId = id_TickBased this\<rparr>,
         this, src'))"

text \<open>Successive calls of \<open>GetRawTimePoint\<close> on one core: the values returned, in order.\<close>

fun GetRawTimePoint_calls ::
  "nat \<Rightarrow> StandardSteadyClockCore \<Rightarrow> TimeSource \<Rightarrow> TimeSpanType list" where
  "GetRawTimePoint_calls 0 this src = []"
| "GetRawTimePoint_calls (Suc n) this src =
     (case StandardSteadyClockCore_GetRawTimePoint this src of (tp, this', src') \<Rightarrow>
        tp # GetRawTimePoint_calls n this' src')"

section \<open>The SteadyClockCore base class and its virtual calls\<close>

text \<open>
  The methods of the base class call virtual methods of the object. They are written over
  any state \<open>'s\<close>, taking the implementations of the virtual methods they call as arguments.
  \<open>SteadyClockCore::GetRawTimePoint\<close> throws when \<open>GetTimePoint\<close> fails.
\<close>

definition SteadyClockCore_GetRawTimePoint ::
  "('s \<Rightarrow> SteadyClockTimePoint ResultValue \<times> 's) \<Rightarrow> 's \<Rightarrow> (exception + TimeSpanType) \<times> 's" where
  "SteadyClockCore_GetRawTimePoint getTimePoint s =
     (case getTimePoint s of (tp, s') \<Rightarrow>
        (case tp of
           Inr p \<Rightarrow> (Inr (FromSeconds (timePoint p)), s')
         | Inl e \<Rightarrow> (Inl Error_reading_timepoint, s')))"

definition SteadyClockCore_GetCurrentTimePoint ::
  "('s \<Rightarrow> SteadyClockTimePoint ResultValue \<times> 's) \<Rightarrow> ('s \<Rightarrow> TimeSpanType) \<Rightarrow> ('s \<Rightarrow> TimeSpanType) \<Rightarrow>
     's \<Rightarrow> SteadyClockTimePoint ResultValue \<times> 's" where
  "SteadyClockCore_GetCurrentTimePoint getTimePoint getTestOffset getInternalOffset s =
     (case getTimePoint s of (tp, s') \<Rightarrow>
        (case tp of
           Inr p \<Rightarrow>
             (Inr (p\<lparr>timePoint := timePoint p +
                      Seconds (TimeSpanType_plus (getTestOffset s') (getInternalOffset s'))\<rparr>), s')
         | Inl e \<Rightarrow> (Inl e, s')))"

text \<open>
  The two classes that derive from \<open>SteadyClockCore\<close>, and the dispatch of its virtual
  methods on an object together with the time source it reads. The tick based core
  overrides \<open>GetTimePoint\<close> only and inherits the rest; the offsets of the base class are
  \<open>{}\<close>.
\<close>

datatype SteadyClockCore = Standard StandardSteadyClockCore | TickBased TickBasedSteadyClockCore

fun GetTimePoint ::
  "SteadyClockCore \<times> TimeSource \<Rightarrow> SteadyClockTimePoint ResultValue \<times> SteadyClockCore \<times> TimeSource" where
  "GetTimePoint (Standard c, src) =
     (case StandardSteadyClockCore_GetTimePoint c src of (r, c', src') \<Rightarrow> (r, Standard c', src'))"
| "GetTimePoint (TickBased c, src) =
     (case TickBasedSteadyClockCore_GetTimePoint c src of (r, c', src') \<Rightarrow> (r, TickBased c', src'))"

fun GetTestOffset :: "SteadyClockCore \<times> TimeSource \<Rightarrow> TimeSpanType" where
  "GetTestOffset (Standard c, src) = testOffset c"
| "GetTestOffset (TickBased c, src) = \<lparr>ns = 0\<rparr>"

fun GetInternalOffset :: "SteadyClockCore \<times> TimeSource \<Rightarrow> TimeSpanType" where
  "GetInternalOffset (Standard c, src) = internalOffset c"
| "GetInternalOffset (TickBased c, src) = \<lparr>ns = 0\<rparr>"

fun GetRawTimePoint ::
  "SteadyClockCore \<times> TimeSource \<Rightarrow> (exception + TimeSpanType) \<times> SteadyClockCore \<times> TimeSource" where
  "GetRawTimePoint (Standard c, src) =
     (case StandardSteadyClockCore_GetRawTimePoint c src of (t, c', src') \<Rightarrow> (Inr t, Standard c', src'))"
| "GetRawTimePoint (TickBased c, src) = SteadyClockCore_GetRawTimePoint GetTimePoint (TickBased c, src)"

definition GetCurrentTimePoint ::
  "SteadyClockCore \<times> TimeSource \<Rightarrow> SteadyClockTimePoint ResultValue \<times> SteadyClockCore \<times> TimeSource" where
  "GetCurrentTimePoint = SteadyClockCore_GetCurrentTimePoint GetTimePoint GetTestOffset GetInternalOffset"

section \<open>System clock cores (timesrv.h, timesrv.cpp)\<close>

text \<open>
  \<open>SystemClockCore::IsClockSetup\<close> is a method of the base class: it calls the virtual
  \<open>GetClockContext\<close> of the object and \<open>GetCurrentTimePoint\<close> of the steady clock the object
  refers to. Both are arguments here.
\<close>

definition SystemClockCore_IsClockSetup ::
  "('w \<Rightarrow> SystemClockContext ResultValue \<times> 'w) \<Rightarrow> ('w \<Rightarrow> SteadyClockTimePoint ResultValue \<times> 'w) \<Rightarrow>
     'w \<Rightarrow> bool \<times> 'w" where
  "SystemClockCore_IsClockSetup getClockContext steadyClock_getCurrentTimePoint w =
     (case getClockContext w of (ctx, w1) \<Rightarrow>
        if ResultValue_bool ctx then
          (case steadyClock_getCurrentTimePoint w1 of (tp, w2) \<Rightarrow>
             (case tp of
                Inr p \<Rightarrow> (Valid (clockSourceId p), w2)
              | Inl e \<Rightarrow> (False, w2)))
        else (False, w1))"

text \<open>
  The objects. A system clock core holds a reference to a steady clock core: an address in
  the store \<open>steadyClocks\<close>. The user clock holds references to the local and the network
  clock; the four system clocks are named as the members of \<open>TimeService\<close> are. The member
  \<open>contextWriter\<close> (a \<open>void *\<close> that no code reads) is left out; the member \<open>context\<close>
  is \<open>context_core\<close> here.
\<close>

datatype SystemClockRef =
  localSystemClock | networkSystemClock | userSystemClock | empheralNetworkClock

datatype SystemClockMethod = IsClockSetup_method | GetClockContext_method | SetClockContext_method

record SystemClockCore =
  steadyClock :: nat
  initialised :: bool
  context_core :: SystemClockContext

text \<open>
  The state of the clocks: the time source, the steady clocks by address, the base class
  part of each system clock, and the members \<open>StandardUserSystemClockCore\<close> adds.
  \<open>calls\<close> is a ghost field: every method of a system clock records the object it is
  called on and its name there when it is entered.
\<close>

record World =
  timeSource :: TimeSource
  steadyClocks :: "nat \<Rightarrow> SteadyClockCore"
  systemClocks :: "SystemClockRef \<Rightarrow> SystemClockCore"
  automaticCorrectionEnabled :: bool
  automaticCorrectionUpdatedTime :: SteadyClockTimePoint
  calls :: "(SystemClockRef \<times> SystemClockMethod) list"

definition enter :: "SystemClockRef \<Rightarrow> SystemClockMethod \<Rightarrow> World \<Rightarrow> World" where
  "enter this m w = w\<lparr>calls := calls w @ [(this, m)]\<rparr>"

definition steadyClock_GetCurrentTimePoint ::
  "nat \<Rightarrow> World \<Rightarrow> SteadyClockTimePoint ResultValue \<times> World" where
  "steadyClock_GetCurrentTimePoint r w =
     (case GetCurrentTimePoint (steadyClocks w r, timeSource w) of (tp, c', src') \<Rightarrow>
        (tp, w\<lparr>steadyClocks := (steadyClocks w)(r := c'), timeSource := src'\<rparr>))"

text \<open>The methods of the base class \<open>SystemClockCore\<close> on the object \<open>this\<close>.\<close>

definition SystemClockCore_GetClockContext ::
  "SystemClockRef \<Rightarrow> World \<Rightarrow> SystemClockContext ResultValue \<times> World" where
  "SystemClockCore_GetClockContext this w =
     (Inr (context_core (systemClocks w this)), enter this GetClockContext_method w)"

definition SystemClockCore_SetClockContext ::
  "SystemClockRef \<Rightarrow> SystemClockContext \<Rightarrow> World \<Rightarrow> Result \<times> World" where
  "SystemClockCore_SetClockContext this pContext w =
     (case enter this SetClockContext_method w of w1 \<Rightarrow>
        (Success, w1\<lparr>systemClocks :=
           (systemClocks w1)(this := (systemClocks w1 this)\<lparr>context_core := pContext\<rparr>)\<rparr>))"

definition IsClockSetup_with ::
  "(World \<Rightarrow> SystemClockContext ResultValue \<times> World) \<Rightarrow> SystemClockRef \<Rightarrow> World \<Rightarrow> bool \<times> World" where
  "IsClockSetup_with getClockContext this w =
     SystemClockCore_IsClockSetup getClockContext
       (steadyClock_GetCurrentTimePoint (steadyClock (systemClocks w this)))
       (enter this IsClockSetup_method w)"

text \<open>
  \<open>StandardUserSystemClockCore\<close>. Its references \<open>localSystemClock\<close> and
  \<open>networkSystemClock\<close> have the types \<open>StandardLocalSystemClockCore\<close> and
  \<open>StandardNetworkSystemClockCore\<close>, which override nothing: the calls through them reach
  the methods of the base class. \<open>&&\<close> evaluates its right operand only when the left one
  is true.
\<close>

definition StandardUserSystemClockCore_GetClockContext ::
  "World \<Rightarrow> SystemClockContext ResultValue \<times> World" where
  "StandardUserSystemClockCore_GetClockContext w0 =
     (case enter userSystemClock GetClockContext_method w0 of w \<Rightarrow>
      (case (if automaticCorrectionEnabled w
             then IsClockSetup_with (SystemClockCore_GetClockContext networkSystemClock)
                    networkSystemClock w
             else (False, w)) of (cond, w1) \<Rightarrow>
         if cond then
           (case SystemClockCore_GetClockContext networkSystemClock w1 of (ctx, w2) \<Rightarrow>
              (case ctx of
                 Inl e \<Rightarrow> (Inl e, w2)
               | Inr c \<Rightarrow>
                   (case SystemClockCore_SetClockContext localSystemClock c w2 of (ret, w3) \<Rightarrow>
                      if Result_bool ret then (Inl ret, w3)
                      else SystemClockCore_GetClockContext localSystemClock w3)))
         else SystemClockCore_GetClockContext localSystemClock w1))"

definition StandardUserSystemClockCore_SetClockContext ::
  "SystemClockContext \<Rightarrow> World \<Rightarrow> Result \<times> World" where
  "StandardUserSystemClockCore_SetClockContext pContext w =
     (Unimplemented, enter userSystemClock SetClockContext_method w)"

text \<open>The virtual methods of a system clock, by the class of the object.\<close>

fun GetClockContext :: "SystemClockRef \<Rightarrow> World \<Rightarrow> SystemClockContext ResultValue \<times> World" where
  "GetClockContext userSystemClock w = StandardUserSystemClockCore_GetClockContext w"
| "GetClockContext this w = SystemClockCore_GetClockContext this w"

fun SetClockContext :: "SystemClockRef \<Rightarrow> SystemClockContext \<Rightarrow> World \<Rightarrow> Result \<times> World" where
  "SetClockContext userSystemClock pContext w = StandardUserSystemClockCore_SetClockContext pContext w"
| "SetClockContext this pContext w = SystemClockCore_SetClockContext this pContext w"

definition IsClockSetup :: "SystemClockRef \<Rightarrow> World \<Rightarrow> bool \<times> World" where
  "IsClockSetup this w = IsClockSetup_with (GetClockContext this) this w"

section \<open>Shared memory (timesrv.cpp)\<close>

text \<open>
  \<open>std::array<T, 2>\<close> is a pair; \<open>at\<close> throws \<open>std::out_of_range\<close> for an index that is
  neither 0 nor 1.
\<close>

type_synonym 'a array2 = "'a \<times> 'a"

fun array2_at :: "nat \<Rightarrow> 'a array2 \<Rightarrow> exception + 'a" where
  "array2_at i (a, b) = (if i = 0 then Inr a else if i = 1 then Inr b else Inl out_of_range)"

fun array2_at_put :: "nat \<Rightarrow> 'a \<Rightarrow> 'a array2 \<Rightarrow> exception + 'a array2" where
  "array2_at_put i v (a, b) =
     (if i = 0 then Inr (v, b) else if i = 1 then Inr (a, v) else Inl out_of_range)"

text \<open>
  What \<open>UpdateTimeSharedMemoryItem\<close> does to memory, in program order: a store into a slot
  of \<open>item\<close>, the barrier instruction \<open>DMB ISHST\<close>, a store into \<open>updateCount\<close>.
\<close>

datatype 'a mem_op = Store_item nat 'a | DMB_ISHST | Store_updateCount u32

text \<open>
  \<open>UpdateTimeSharedMemoryItem\<close>: the references \<open>updateCount\<close> and \<open>item\<close> are passed in
  and their new contents are returned, with the memory operations the call has performed.
\<close>

definition UpdateTimeSharedMemoryItem ::
  "u32 \<Rightarrow> 'a array2 \<Rightarrow> 'a \<Rightarrow> exception + (u32 \<times> 'a array2 \<times> 'a mem_op list)" where
  "UpdateTimeSharedMemoryItem updateCount item newValue =
     (let newCount = updateCount + 1 in
      case array2_at_put (unat (newCount AND 1)) newValue item of
        Inl ex \<Rightarrow> Inl ex
      | Inr item' \<Rightarrow>
          Inr (newCount, item',
               [Store_item (unat (newCount AND 1)) newValue, DMB_ISHST, Store_updateCount newCount]))"

record SystemClockContextEntry =
  updateCount :: u32
  pad :: u32
  context_entry :: "SystemClockContext array2"

record AutomaticCorrectionEnabledEntry =
  updateCount_flag :: u32
  automaticCorrectionEnabled_flag :: u8

record TimeSharedMemoryLayout =
  tmp :: "u8 list"
  localSystemClockContextEntry :: SystemClockContextEntry
  networkSystemClockContextEntry :: SystemClockContextEntry
  automaticCorrectionEnabledEntry :: AutomaticCorrectionEnabledEntry

datatype Entry = LocalEntry | NetworkEntry

text \<open>
  \<open>TimeSharedMemory\<close>: the region its pointer \<open>timeSharedMemory\<close> refers to, and a ghost
  field with the memory operations performed on the region so far, each with the entry it
  was performed for.
\<close>

record TimeSharedMemory =
  timeSharedMemory_layout :: TimeSharedMemoryLayout
  memOps :: "(Entry \<times> SystemClockContext mem_op) list"

definition UpdateLocalSystemClockContext ::
  "SystemClockContext \<Rightarrow> TimeSharedMemory \<Rightarrow> exception + TimeSharedMemory" where
  "UpdateLocalSystemClockContext ctx m =
     (let e = localSystemClockContextEntry (timeSharedMemory_layout m) in
      case UpdateTimeSharedMemoryItem (updateCount e) (context_entry e) ctx of
        Inl ex \<Rightarrow> Inl ex
      | Inr (n, item', ops) \<Rightarrow>
          Inr (m\<lparr>timeSharedMemory_layout := (timeSharedMemory_layout m)
                    \<lparr>localSystemClockContextEntry := e\<lparr>updateCount := n, context_entry := item'\<rparr>\<rparr>,
                  memOps := memOps m @ map (Pair LocalEntry) ops\<rparr>))"

definition UpdateNetworkSystemClockContext ::
  "SystemClockContext \<Rightarrow> TimeSharedMemory \<Rightarrow> exception + TimeSharedMemory" where
  "UpdateNetworkSystemClockContext ctx m =
     (let e = networkSystemClockContextEntry (timeSharedMemory_layout m) in
      case UpdateTimeSharedMemoryItem (updateCount e) (context_entry e) ctx of
        Inl ex \<Rightarrow> Inl ex
      | Inr (n, item', ops) \<Rightarrow>
          Inr (m\<lparr>timeSharedMemory_layout := (timeSharedMemory_layout m)
                    \<lparr>networkSystemClockContextEntry := e\<lparr>updateCount := n, context_entry := item'\<rparr>\<rparr>,
                  memOps := memOps m @ map (Pair NetworkEntry) ops\<rparr>))"

section \<open>Context writers (timesrv.h, timesrv.cpp)\<close>

text \<open>
  Modelled from the spec: \<open>KEvent\<close> is declared in kernel/types/KEvent.h, which is not among
  the sources; the spec calls it a signalable handle of an external collaborator. An event
  is its handle, and \<open>Signal()\<close> on it is recorded in the list \<open>signalled\<close>, in order.
\<close>

type_synonym KEvent = nat

record SystemClockContextUpdateCallback =
  operationEventList :: "KEvent list"
  context_callback :: "SystemClockContext option"

record WriterWorld =
  timeSharedMemory :: TimeSharedMemory
  signalled :: "KEvent list"

text \<open>
  How a call ends: it returns a value, it throws, or control reaches the closing brace of a
  function that returns \<open>Result\<close> with no \<open>return\<close> statement.
\<close>

datatype 'a outcome = Returns 'a | Throws exception | Falls_off_end

definition UpdateBaseContext ::
  "SystemClockContext \<Rightarrow> SystemClockContextUpdateCallback \<Rightarrow> bool \<times> SystemClockContextUpdateCallback" where
  "UpdateBaseContext newContext this =
     (if context_callback this \<noteq> None \<and> context_callback this = Some newContext
      then (False, this)
      else (True, this\<lparr>context_callback := Some newContext\<rparr>))"

definition SignalOperationEvent :: "SystemClockContextUpdateCallback \<Rightarrow> KEvent list \<Rightarrow> KEvent list" where
  "SignalOperationEvent this sig = fold (\<lambda>event acc. acc @ [event]) (operationEventList this) sig"

definition LocalSystemClockContextWriter_UpdateContext ::
  "SystemClockContext \<Rightarrow> SystemClockContextUpdateCallback \<times> WriterWorld \<Rightarrow>
     Result outcome \<times> SystemClockContextUpdateCallback \<times> WriterWorld" where
  "LocalSystemClockContextWriter_UpdateContext newContext s =
     (case s of (this, w) \<Rightarrow>
      (case UpdateBaseContext newContext this of (updated, this') \<Rightarrow>
         if \<not> updated then (Returns Success, this', w)
         else
           (case UpdateLocalSystemClockContext newContext (timeSharedMemory w) of
              Inl ex \<Rightarrow> (Throws ex, this', w)
            | Inr m \<Rightarrow>
                (Falls_off_end, this',
                 w\<lparr>timeSharedMemory := m, signalled := SignalOperationEvent this' (signalled w)\<rparr>))))"

definition NetworkSystemClockContextWriter_UpdateContext ::
  "SystemClockContext \<Rightarrow> SystemClockContextUpdateCallback \<times> WriterWorld \<Rightarrow>
     Result outcome \<times> SystemClockContextUpdateCallback \<times> WriterWorld" where
  "NetworkSystemClockContextWriter_UpdateContext newContext s =
     (case s of (this, w) \<Rightarrow>
      (case UpdateBaseContext newContext this of (updated, this') \<Rightarrow>
         if \<not> updated then (Returns Success, this', w)
         else
           (case UpdateNetworkSystemClockContext newContext (timeSharedMemory w) of
              Inl ex \<Rightarrow> (Throws ex, this', w)
            | Inr m \<Rightarrow>
                (Falls_off_end, this',
                 w\<lparr>timeSharedMemory := m, signalled := SignalOperationEvent this' (signalled w)\<rparr>))))"

definition EphemeralNetworkSystemClockContextWriter_UpdateContext ::
  "SystemClockContext \<Rightarrow> SystemClockContextUpdateCallback \<times> WriterWorld \<Rightarrow>
     Result outcome \<times> SystemClockContextUpdateCallback \<times> WriterWorld" where
  "EphemeralNetworkSystemClockContextWriter_UpdateContext newContext s =
     (case s of (this, w) \<Rightarrow>
      (case UpdateBaseContext newContext this of (updated, this') \<Rightarrow>
         if \<not> updated then (Returns Success, this', w)
         else (Falls_off_end, this', w\<lparr>signalled := SignalOperationEvent this' (signalled w)\<rparr>)))"

text \<open>The virtual \<open>UpdateContext\<close>, by the class of the writer.\<close>

datatype Writer =
  LocalSystemClockContextWriter | NetworkSystemClockContextWriter
  | EphemeralNetworkSystemClockContextWriter

fun UpdateContext ::
  "Writer \<Rightarrow> SystemClockContext \<Rightarrow> SystemClockContextUpdateCallback \<times> WriterWorld \<Rightarrow>
     Result outcome \<times> SystemClockContextUpdateCallback \<times> WriterWorld" where
  "UpdateContext LocalSystemClockContextWriter = LocalSystemClockContextWriter_UpdateContext"
| "UpdateContext NetworkSystemClockContextWriter = NetworkSystemClockContextWriter_UpdateContext"
| "UpdateContext EphemeralNetworkSystemClockContextWriter =
     EphemeralNetworkSystemClockContextWriter_UpdateContext"

section \<open>Binary layout of the structures\<close>

text \<open>
  A type is laid out by its size and its alignment, in bytes. The scalar types have the
  size of their width and are aligned to it; an array has the alignment of its element. A
  structure places its members in the order of their declaration: a structure declared
  \<open>__attribute__((packed))\<close> places each member right after the one before and has
  alignment 1; any other structure places each member at the next multiple of the member's
  alignment, is aligned as its most aligned member is, and its size is rounded up to that
  alignment. The member lists below are the declarations of uuid.h, timesrv.h and
  timesrv.cpp.
\<close>

type_synonym ctype = "nat \<times> nat"

definition u8_t :: ctype where "u8_t = (1, 1)"
definition u32_t :: ctype where "u32_t = (4, 4)"
definition i64_t :: ctype where "i64_t = (8, 8)"
definition u64_t :: ctype where "u64_t = (8, 8)"
definition u128_t :: ctype where "u128_t = (16, 16)"

definition sizeof :: "ctype \<Rightarrow> nat" where
  "sizeof t = fst t"

definition alignof :: "ctype \<Rightarrow> nat" where
  "alignof t = snd t"

definition array_t :: "ctype \<Rightarrow> nat \<Rightarrow> ctype" where
  "array_t t n = (sizeof t * n, alignof t)"

definition align_up :: "nat \<Rightarrow> nat \<Rightarrow> nat" where
  "align_up a off = ((off + a - 1) div a) * a"

fun place :: "bool \<Rightarrow> nat \<Rightarrow> (string \<times> ctype) list \<Rightarrow> (string \<times> nat) list \<times> nat" where
  "place packed off [] = ([], off)"
| "place packed off ((name, t) # ms) =
     (let at = (if packed then off else align_up (alignof t) off) in
      case place packed (at + sizeof t) ms of (offs, end) \<Rightarrow> ((name, at) # offs, end))"

definition struct_align :: "bool \<Rightarrow> (string \<times> ctype) list \<Rightarrow> nat" where
  "struct_align packed ms = (if packed then 1 else fold max (map (\<lambda>m. alignof (snd m)) ms) 1)"

definition struct_t :: "bool \<Rightarrow> (string \<times> ctype) list \<Rightarrow> ctype" where
  "struct_t packed ms =
     (align_up (struct_align packed ms) (snd (place packed 0 ms)), struct_align packed ms)"

definition offsetof :: "bool \<Rightarrow> (string \<times> ctype) list \<Rightarrow> string \<Rightarrow> nat option" where
  "offsetof packed ms name = map_of (fst (place packed 0 ms)) name"

definition UUID_members :: "(string \<times> ctype) list" where
  "UUID_members = [(''raw'', u128_t)]"

definition UUID_t :: ctype where
  "UUID_t = struct_t False UUID_members"

definition SteadyClockTimePoint_members :: "(string \<times> ctype) list" where
  "SteadyClockTimePoint_members = [(''timePoint'', i64_t), (''clockSourceId'', UUID_t)]"

definition SteadyClockTimePoint_t :: ctype where
  "SteadyClockTimePoint_t = struct_t True SteadyClockTimePoint_members"

definition SystemClockContext_members :: "(string \<times> ctype) list" where
  "SystemClockContext_members = [(''steadyTimePoint'', SteadyClockTimePoint_t), (''offset'', u64_t)]"

definition SystemClockContext_t :: ctype where
  "SystemClockContext_t = struct_t True SystemClockContext_members"

definition SystemClockContextEntry_members :: "(string \<times> ctype) list" where
  "SystemClockContextEntry_members =
     [(''updateCount'', u32_t), (''_pad_'', u32_t), (''context'', array_t SystemClockContext_t 2)]"

definition SystemClockContextEntry_t :: ctype where
  "SystemClockContextEntry_t = struct_t False SystemClockContextEntry_members"

definition automaticCorrectionEnabledEntry_members :: "(string \<times> ctype) list" where
  "automaticCorrectionEnabledEntry_members =
     [(''updateCount'', u32_t), (''automaticCorrectionEnabled'', u8_t)]"

definition automaticCorrectionEnabledEntry_t :: ctype where
  "automaticCorrectionEnabledEntry_t = struct_t True automaticCorrectionEnabledEntry_members"

definition TimeSharedMemoryLayout_members :: "(string \<times> ctype) list" where
  "TimeSharedMemoryLayout_members =
     [(''_tmp_'', array_t u8_t 0x38),
      (''localSystemClockContextEntry'', SystemClockContextEntry_t),
      (''networkSystemClockContextEntry'', SystemClockContextEntry_t),
      (''automaticCorrectionEnabledEntry'', automaticCorrectionEnabledEntry_t)]"

definition TimeSharedMemoryLayout_t :: ctype where
  "TimeSharedMemoryLayout_t = struct_t True TimeSharedMemoryLayout_members"

definition TimeSharedMemorySize :: nat where
  "TimeSharedMemorySize = 0x1000"

section \<open>Example states\<close>

text \<open>A time source that always reads 0, and one that reads 10 and then 5 for ever.\<close>

definition example_TimeSource :: TimeSource where
  "example_TimeSource = \<lparr>timeNs = (\<lambda>k. 0), reads = 0\<rparr>"

definition decreasing_TimeSource :: TimeSource where
  "decreasing_TimeSource = \<lparr>timeNs = (\<lambda>k. if k = 0 then 10 else 5), reads = 0\<rparr>"

text \<open>The context of a default constructed \<open>SystemClockContext\<close>, and one with a valid id.\<close>

definition SystemClockContext_new :: SystemClockContext where
  "SystemClockContext_new =
     \<lparr>steadyTimePoint = \<lparr>timePoint = 0, clockSourceId = UUID_new\<rparr>, offset = 0\<rparr>"

definition example_context :: SystemClockContext where
  "example_context =
     \<lparr>steadyTimePoint = \<lparr>timePoint = 100, clockSourceId = \<lparr>raw = 1\<rparr>\<rparr>, offset = 5\<rparr>"

text \<open>
  Clocks in which every steady clock is a standard one with the id 1, the network clock
  holds \<open>example_context\<close> and the other system clocks hold the default context.
\<close>

definition example_World :: "bool \<Rightarrow> World" where
  "example_World enabled =
     \<lparr>timeSource = example_TimeSource,
      steadyClocks = (\<lambda>r. Standard (StandardSteadyClockCore_new\<lparr>id_Standard := \<lparr>raw = 1\<rparr>\<rparr>)),
      systemClocks = (\<lambda>c. \<lparr>steadyClock = 0, initialised = False,
         context_core = (if c = networkSystemClock then example_context else SystemClockContext_new)\<rparr>),
      automaticCorrectionEnabled = enabled,
      automaticCorrectionUpdatedTime = \<lparr>timePoint = 0, clockSourceId = UUID_new\<rparr>,
      calls = []\<rparr>"

text \<open>A writer with one subscriber and no context yet, and a zeroed shared memory.\<close>

definition example_callback :: SystemClockContextUpdateCallback where
  "example_callback = \<lparr>operationEventList = [1], context_callback = None\<rparr>"

definition SystemClockContextEntry_zero :: SystemClockContextEntry where
  "SystemClockContextEntry_zero =
     \<lparr>updateCount = 0, pad = 0, context_entry = (SystemClockContext_new, SystemClockContext_new)\<rparr>"

definition example_WriterWorld :: WriterWorld where
  "example_WriterWorld =
     \<lparr>timeSharedMemory =
        \<lparr>timeSharedMemory_layout =
           \<lparr>tmp = replicate 0x38 0,
            localSystemClockContextEntry = SystemClockContextEntry_zero,
            networkSystemClockContextEntry = SystemClockContextEntry_zero,
            automaticCorrectionEnabledEntry =
              \<lparr>updateCount_flag = 0, automaticCorrectionEnabled_flag = 0\<rparr>\<rparr>,
         memOps = []\<rparr>,
      signalled = []\<rparr>"

section \<open>Properties\<close>

subsection \<open>Steady clocks\<close>

lemma GetRawTimePoint_fresh:
  "fst (StandardSteadyClockCore_GetRawTimePoint this src) =
     TimeSpanType_plus (FromNanoseconds (timeNs src (reads src))) (rtcOffset this)"
  by (simp add: StandardSteadyClockCore_GetRawTimePoint_def GetTimeNs_def Let_def)

text \<open>
  C1. On a freshly constructed core whose time source reads 10 ns and then 5 ns, two calls
  of \<open>StandardSteadyClockCore::GetRawTimePoint\<close> return 10 ns and then 5 ns: the second
  value is below the first, although the cached maximum is 10 ns after the first call.
\<close>

theorem C1_GetRawTimePoint_regresses:
  "GetRawTimePoint_calls (Suc (Suc 0)) StandardSteadyClockCore_new decreasing_TimeSource
     = [\<lparr>ns = 10\<rparr>, \<lparr>ns = 5\<rparr>]
   \<and> TimeSpanType_less \<lparr>ns = 5\<rparr> \<lparr>ns = 10\<rparr>
   \<and> cachedValue (fst (snd (StandardSteadyClockCore_GetRawTimePoint StandardSteadyClockCore_new
         decreasing_TimeSource))) = \<lparr>ns = 10\<rparr>"
  by (simp add: StandardSteadyClockCore_GetRawTimePoint_def GetTimeNs_def decreasing_TimeSource_def
      StandardSteadyClockCore_new_def TimeSpanType_plus_def FromNanoseconds_def
      TimeSpanType_greater_def TimeSpanType_less_def Let_def word_sless_alt)

lemma Standard_GetTimePoint_id:
  "\<exists>tp. fst (StandardSteadyClockCore_GetTimePoint c src) = Inr tp \<and> clockSourceId tp = id_Standard c"
  by (simp add: StandardSteadyClockCore_GetTimePoint_def StandardSteadyClockCore_GetRawTimePoint_def
      GetTimeNs_def Let_def)

lemma Standard_GetTimePoint_keeps_id:
  "id_Standard (fst (snd (StandardSteadyClockCore_GetTimePoint c src))) = id_Standard c"
  by (simp add: StandardSteadyClockCore_GetTimePoint_def StandardSteadyClockCore_GetRawTimePoint_def
      GetTimeNs_def Let_def)

lemma TickBased_GetTimePoint_id:
  "\<exists>tp. fst (TickBasedSteadyClockCore_GetTimePoint c src) = Inr tp \<and> clockSourceId tp = id_TickBased c"
  by (simp add: TickBasedSteadyClockCore_GetTimePoint_def GetTimeNs_def)

lemma TickBased_GetTimePoint_keeps_id:
  "id_TickBased (fst (snd (TickBasedSteadyClockCore_GetTimePoint c src))) = id_TickBased c"
  by (simp add: TickBasedSteadyClockCore_GetTimePoint_def GetTimeNs_def)

text \<open>
  C2, as the claim states it, fails: the identifier of a freshly constructed steady clock
  core, standard or tick based, is not valid, and the time point \<open>GetTimePoint\<close> returns on
  such a core carries the all-zero identifier.
\<close>

theorem C2_counterexample:
  "\<not> Valid (id_Standard StandardSteadyClockCore_new)
   \<and> \<not> Valid (id_TickBased TickBasedSteadyClockCore_new)
   \<and> fst (StandardSteadyClockCore_GetTimePoint StandardSteadyClockCore_new example_TimeSource)
       = Inr \<lparr>timePoint = 0, clockSourceId = \<lparr>raw = 0\<rparr>\<rparr>
   \<and> fst (TickBasedSteadyClockCore_GetTimePoint TickBasedSteadyClockCore_new example_TimeSource)
       = Inr \<lparr>timePoint = 0, clockSourceId = \<lparr>raw = 0\<rparr>\<rparr>
   \<and> \<not> Valid \<lparr>raw = 0\<rparr>"
  by (simp add: Valid_def StandardSteadyClockCore_new_def TickBasedSteadyClockCore_new_def UUID_new_def
      StandardSteadyClockCore_GetTimePoint_def StandardSteadyClockCore_GetRawTimePoint_def
      TickBasedSteadyClockCore_GetTimePoint_def GetTimeNs_def Let_def TimeSpanType_plus_def
      FromNanoseconds_def TimeSpanType_greater_def Seconds_def i64_div_def NsInSecond_def
      example_TimeSource_def)

text \<open>
  C2, amended. A steady clock core is constructed with the all-zero identifier.
  \<open>GetTimePoint\<close>, on either kind of core and in every state, succeeds with a time point
  that carries the identifier of the core, and leaves that identifier as it is.
\<close>

theorem C2_clockSourceId_is_core_id:
  "id_Standard StandardSteadyClockCore_new = \<lparr>raw = 0\<rparr>
   \<and> id_TickBased TickBasedSteadyClockCore_new = \<lparr>raw = 0\<rparr>
   \<and> (\<exists>tp. fst (StandardSteadyClockCore_GetTimePoint c src) = Inr tp \<and> clockSourceId tp = id_Standard c)
   \<and> id_Standard (fst (snd (StandardSteadyClockCore_GetTimePoint c src))) = id_Standard c
   \<and> (\<exists>tp. fst (TickBasedSteadyClockCore_GetTimePoint t src) = Inr tp \<and> clockSourceId tp = id_TickBased t)
   \<and> id_TickBased (fst (snd (TickBasedSteadyClockCore_GetTimePoint t src))) = id_TickBased t"
  using Standard_GetTimePoint_id [of c src] Standard_GetTimePoint_keeps_id [of c src]
    TickBased_GetTimePoint_id [of t src] TickBased_GetTimePoint_keeps_id [of t src]
  by (simp add: StandardSteadyClockCore_new_def TickBasedSteadyClockCore_new_def UUID_new_def)

lemma GetTimePoint_ok: "\<exists>tp. fst (GetTimePoint (core, src)) = Inr tp"
  by (cases core)
    (simp_all add: StandardSteadyClockCore_GetTimePoint_def StandardSteadyClockCore_GetRawTimePoint_def
      TickBasedSteadyClockCore_GetTimePoint_def GetTimeNs_def Let_def)

lemma base_GetRawTimePoint_ok:
  "\<exists>t. fst (SteadyClockCore_GetRawTimePoint GetTimePoint (core, src)) = Inr t"
  using GetTimePoint_ok [of core src]
  by (auto simp: SteadyClockCore_GetRawTimePoint_def split: prod.splits sum.splits)

lemma GetRawTimePoint_ok: "\<exists>t. fst (GetRawTimePoint (core, src)) = Inr t"
  using base_GetRawTimePoint_ok [of core src]
  by (cases core) (auto split: prod.splits)

lemma GetCurrentTimePoint_ok: "\<exists>tp. fst (GetCurrentTimePoint (core, src)) = Inr tp"
  using GetTimePoint_ok [of core src]
  by (auto simp: GetCurrentTimePoint_def SteadyClockCore_GetCurrentTimePoint_def
      split: prod.splits sum.splits)

lemma steadyClock_GetCurrentTimePoint_ok: "\<exists>tp. fst (steadyClock_GetCurrentTimePoint r w) = Inr tp"
  using GetCurrentTimePoint_ok [of "steadyClocks w r" "timeSource w"]
  by (auto simp: steadyClock_GetCurrentTimePoint_def split: prod.splits)

text \<open>
  C10. In every state \<open>GetTimePoint\<close> of the standard and of the tick based steady clock
  core returns a value. So does the virtual \<open>GetTimePoint\<close> on any steady clock, hence
  \<open>GetRawTimePoint\<close> (the inherited one included) never throws, and \<open>GetCurrentTimePoint\<close>,
  also when it is called through the reference of a system clock as \<open>IsClockSetup\<close> does,
  never fails.
\<close>

theorem C10_GetTimePoint_always_succeeds:
  "(\<exists>tp. fst (StandardSteadyClockCore_GetTimePoint c src) = Inr tp)
   \<and> (\<exists>tp. fst (TickBasedSteadyClockCore_GetTimePoint t src) = Inr tp)
   \<and> (\<exists>tp. fst (GetTimePoint (core, src)) = Inr tp)
   \<and> (\<exists>d. fst (SteadyClockCore_GetRawTimePoint GetTimePoint (core, src)) = Inr d)
   \<and> (\<exists>d. fst (GetRawTimePoint (core, src)) = Inr d)
   \<and> (\<exists>tp. fst (GetCurrentTimePoint (core, src)) = Inr tp)
   \<and> (\<exists>tp. fst (steadyClock_GetCurrentTimePoint r w) = Inr tp)"
  using Standard_GetTimePoint_id [of c src] TickBased_GetTimePoint_id [of t src]
    GetTimePoint_ok [of core src] base_GetRawTimePoint_ok [of core src] GetRawTimePoint_ok [of core src]
    GetCurrentTimePoint_ok [of core src] steadyClock_GetCurrentTimePoint_ok [of r w]
  by blast

subsection \<open>System clocks\<close>

lemma ResultValue_bool_iff: "ResultValue_bool r \<longleftrightarrow> (\<exists>v. r = Inr v)"
  by (cases r) simp_all

lemma SystemClockCore_IsClockSetup_iff:
  "fst (SystemClockCore_IsClockSetup getClockContext getCurrentTimePoint w) \<longleftrightarrow>
     (\<exists>ctx w1 tp w2. getClockContext w = (Inr ctx, w1) \<and> getCurrentTimePoint w1 = (Inr tp, w2)
        \<and> raw (clockSourceId tp) \<noteq> 0)"
  by (auto simp: SystemClockCore_IsClockSetup_def Valid_def ResultValue_bool_iff
      split: prod.splits sum.splits)

text \<open>
  C7. Whatever the virtual \<open>GetClockContext\<close> of the object and \<open>GetCurrentTimePoint\<close> of its
  steady clock do, \<open>IsClockSetup\<close> is true exactly when \<open>GetClockContext\<close> returns a value,
  \<open>GetCurrentTimePoint\<close>, called in the state that leaves, returns a time point, and the
  identifier of that time point is not zero. So it is false for an all-zero identifier. In
  particular this holds of each of the four system clocks, with its own \<open>GetClockContext\<close>
  and the steady clock it refers to.
\<close>

theorem C7_IsClockSetup_iff:
  "(fst (SystemClockCore_IsClockSetup getClockContext getCurrentTimePoint s) \<longleftrightarrow>
     (\<exists>ctx s1 tp s2. getClockContext s = (Inr ctx, s1) \<and> getCurrentTimePoint s1 = (Inr tp, s2)
        \<and> raw (clockSourceId tp) \<noteq> 0))
   \<and> (fst (IsClockSetup this w) \<longleftrightarrow>
     (\<exists>ctx w1 tp w2. GetClockContext this (enter this IsClockSetup_method w) = (Inr ctx, w1)
        \<and> steadyClock_GetCurrentTimePoint (steadyClock (systemClocks w this)) w1 = (Inr tp, w2)
        \<and> raw (clockSourceId tp) \<noteq> 0))"
  unfolding IsClockSetup_def IsClockSetup_with_def
  using SystemClockCore_IsClockSetup_iff [of getClockContext getCurrentTimePoint s]
    SystemClockCore_IsClockSetup_iff [of "GetClockContext this"
      "steadyClock_GetCurrentTimePoint (steadyClock (systemClocks w this))"
      "enter this IsClockSetup_method w"]
  by (intro conjI)

text \<open>
  C4. With automatic correction disabled, \<open>StandardUserSystemClockCore::GetClockContext\<close>
  returns the context stored in the local clock, and the state it leaves is the state it
  found, but for the record of calls: its own entry and \<open>GetClockContext\<close> on the local
  clock. No method of the network clock is entered, no context changes and the time source
  is not read.
\<close>

theorem C4_correction_disabled:
  "\<not> automaticCorrectionEnabled w \<Longrightarrow>
   StandardUserSystemClockCore_GetClockContext w =
     (Inr (context_core (systemClocks w localSystemClock)),
      w\<lparr>calls := calls w @ [(userSystemClock, GetClockContext_method),
                             (localSystemClock, GetClockContext_method)]\<rparr>)"
  by (simp add: StandardUserSystemClockCore_GetClockContext_def enter_def
      SystemClockCore_GetClockContext_def)

theorem C4_correction_disabled_witness:
  "\<not> automaticCorrectionEnabled (example_World False)
   \<and> StandardUserSystemClockCore_GetClockContext (example_World False) =
       (Inr SystemClockContext_new,
        (example_World False)\<lparr>calls := [(userSystemClock, GetClockContext_method),
                                        (localSystemClock, GetClockContext_method)]\<rparr>)"
proof -
  have off: "\<not> automaticCorrectionEnabled (example_World False)"
    by (simp add: example_World_def)
  show ?thesis
    using off C4_correction_disabled [OF off] by (simp add: example_World_def)
qed

text \<open>
  C3. With automatic correction enabled and the network clock reporting that it is set up,
  \<open>StandardUserSystemClockCore::GetClockContext\<close> returns the context C stored in the
  network clock, the local clock stores C afterwards, and \<open>GetClockContext\<close> on the local
  clock then returns C.
\<close>

theorem C3_correction_enabled:
  assumes "automaticCorrectionEnabled w" and "fst (IsClockSetup networkSystemClock w)"
  shows "fst (StandardUserSystemClockCore_GetClockContext w)
           = Inr (context_core (systemClocks w networkSystemClock))
    \<and> context_core (systemClocks (snd (StandardUserSystemClockCore_GetClockContext w)) localSystemClock)
           = context_core (systemClocks w networkSystemClock)
    \<and> fst (SystemClockCore_GetClockContext localSystemClock
             (snd (StandardUserSystemClockCore_GetClockContext w)))
           = Inr (context_core (systemClocks w networkSystemClock))"
  using assms
  by (simp add: StandardUserSystemClockCore_GetClockContext_def IsClockSetup_def IsClockSetup_with_def
      SystemClockCore_IsClockSetup_def enter_def SystemClockCore_GetClockContext_def
      SystemClockCore_SetClockContext_def steadyClock_GetCurrentTimePoint_def Result_bool_def
      split: prod.splits sum.splits)

lemma IsClockSetup_example: "fst (IsClockSetup networkSystemClock (example_World True))"
  by (simp add: example_World_def IsClockSetup_def IsClockSetup_with_def SystemClockCore_IsClockSetup_def
      enter_def SystemClockCore_GetClockContext_def steadyClock_GetCurrentTimePoint_def
      GetCurrentTimePoint_def SteadyClockCore_GetCurrentTimePoint_def
      StandardSteadyClockCore_GetTimePoint_def StandardSteadyClockCore_GetRawTimePoint_def
      GetTimeNs_def Let_def Valid_def StandardSteadyClockCore_new_def split: prod.splits)

theorem C3_correction_enabled_witness:
  "automaticCorrectionEnabled (example_World True)
   \<and> fst (IsClockSetup networkSystemClock (example_World True))
   \<and> fst (StandardUserSystemClockCore_GetClockContext (example_World True)) = Inr example_context
   \<and> context_core (systemClocks (snd (StandardUserSystemClockCore_GetClockContext (example_World True)))
        localSystemClock) = example_context
   \<and> context_core (systemClocks (example_World True) localSystemClock) = SystemClockContext_new"
proof -
  have on: "automaticCorrectionEnabled (example_World True)"
    by (simp add: example_World_def)
  have net: "context_core (systemClocks (example_World True) networkSystemClock) = example_context"
    by (simp add: example_World_def)
  have loc: "context_core (systemClocks (example_World True) localSystemClock) = SystemClockContext_new"
    by (simp add: example_World_def)
  show ?thesis
    using on IsClockSetup_example C3_correction_enabled [OF on IsClockSetup_example] loc
    by (simp add: net)
qed

text \<open>
  C9. \<open>StandardUserSystemClockCore::SetClockContext\<close> returns \<open>Unimplemented\<close>, a result
  that is not success, for every argument and in every state, also when it is reached
  through the virtual call; the state it leaves is the state it found, but for the record
  of the call.
\<close>

theorem C9_SetClockContext_Unimplemented:
  "StandardUserSystemClockCore_SetClockContext pContext w
     = (Unimplemented, w\<lparr>calls := calls w @ [(userSystemClock, SetClockContext_method)]\<rparr>)
   \<and> SetClockContext userSystemClock pContext w
     = (Unimplemented, w\<lparr>calls := calls w @ [(userSystemClock, SetClockContext_method)]\<rparr>)
   \<and> Result_bool Unimplemented
   \<and> Unimplemented = Result 116 990"
  by (simp add: StandardUserSystemClockCore_SetClockContext_def enter_def Result_bool_def
      Unimplemented_def Success_def)

subsection \<open>Shared memory\<close>

lemma index_parity: "unat (((c::u32) + 1) AND 1) = (unat c + 1) mod 2"
proof -
  have "unat ((c + 1) AND 1) = unat ((c + 1) mod 2)"
    by (simp add: and_one_eq)
  also have "\<dots> = unat (c + 1) mod 2"
    by (simp add: unat_mod)
  also have "unat (c + 1) = (unat c + 1) mod 2 ^ 32"
    by (simp add: unat_word_ariths)
  also have "(unat c + 1) mod 2 ^ 32 mod 2 = (unat c + 1) mod 2"
    by (rule mod_mod_cancel) simp
  finally show ?thesis .
qed

lemma put_parity:
  "\<exists>item'. array2_at_put ((n + 1) mod 2) v item = Inr item'
     \<and> array2_at ((n + 1) mod 2) item' = Inr v
     \<and> array2_at (n mod 2) item' = array2_at (n mod 2) item"
  by (cases item; cases "n mod 2 = 0") (auto simp: mod_Suc)

lemma UpdateTimeSharedMemoryItem_ok:
  "\<exists>item'. UpdateTimeSharedMemoryItem c item v =
       Inr (c + 1, item', [Store_item ((unat c + 1) mod 2) v, DMB_ISHST, Store_updateCount (c + 1)])
     \<and> array2_at ((unat c + 1) mod 2) item' = Inr v
     \<and> array2_at (unat c mod 2) item' = array2_at (unat c mod 2) item"
proof -
  obtain item' where p: "array2_at_put ((unat c + 1) mod 2) v item = Inr item'"
    and q: "array2_at ((unat c + 1) mod 2) item' = Inr v"
    and r: "array2_at (unat c mod 2) item' = array2_at (unat c mod 2) item"
    using put_parity [of "unat c" v item] by (elim exE conjE)
  have "UpdateTimeSharedMemoryItem c item v =
       Inr (c + 1, item', [Store_item ((unat c + 1) mod 2) v, DMB_ISHST, Store_updateCount (c + 1)])"
    unfolding UpdateTimeSharedMemoryItem_def Let_def index_parity p by simp
  with q r show ?thesis by blast
qed

lemma UpdateLocalSystemClockContext_ok:
  "\<exists>m'. UpdateLocalSystemClockContext v m = Inr m'
     \<and> updateCount (localSystemClockContextEntry (timeSharedMemory_layout m'))
         = updateCount (localSystemClockContextEntry (timeSharedMemory_layout m)) + 1
     \<and> array2_at ((unat (updateCount (localSystemClockContextEntry (timeSharedMemory_layout m))) + 1) mod 2)
         (context_entry (localSystemClockContextEntry (timeSharedMemory_layout m'))) = Inr v
     \<and> networkSystemClockContextEntry (timeSharedMemory_layout m')
         = networkSystemClockContextEntry (timeSharedMemory_layout m)
     \<and> memOps m' = memOps m @
         [(LocalEntry, Store_item
             ((unat (updateCount (localSystemClockContextEntry (timeSharedMemory_layout m))) + 1) mod 2) v),
          (LocalEntry, DMB_ISHST),
          (LocalEntry, Store_updateCount
             (updateCount (localSystemClockContextEntry (timeSharedMemory_layout m)) + 1))]"
proof -
  let ?e = "localSystemClockContextEntry (timeSharedMemory_layout m)"
  obtain item' where p: "UpdateTimeSharedMemoryItem (updateCount ?e) (context_entry ?e) v =
       Inr (updateCount ?e + 1, item',
            [Store_item ((unat (updateCount ?e) + 1) mod 2) v, DMB_ISHST,
             Store_updateCount (updateCount ?e + 1)])"
    and q: "array2_at ((unat (updateCount ?e) + 1) mod 2) item' = Inr v"
    using UpdateTimeSharedMemoryItem_ok [of "updateCount ?e" "context_entry ?e" v] by (elim exE conjE)
  show ?thesis
    unfolding UpdateLocalSystemClockContext_def Let_def p using q by simp
qed

lemma UpdateNetworkSystemClockContext_ok:
  "\<exists>m'. UpdateNetworkSystemClockContext v m = Inr m'
     \<and> updateCount (networkSystemClockContextEntry (timeSharedMemory_layout m'))
         = updateCount (networkSystemClockContextEntry (timeSharedMemory_layout m)) + 1
     \<and> array2_at ((unat (updateCount (networkSystemClockContextEntry (timeSharedMemory_layout m))) + 1) mod 2)
         (context_entry (networkSystemClockContextEntry (timeSharedMemory_layout m'))) = Inr v
     \<and> localSystemClockContextEntry (timeSharedMemory_layout m')
         = localSystemClockContextEntry (timeSharedMemory_layout m)
     \<and> memOps m' = memOps m @
         [(NetworkEntry, Store_item
             ((unat (updateCount (networkSystemClockContextEntry (timeSharedMemory_layout m))) + 1) mod 2) v),
          (NetworkEntry, DMB_ISHST),
          (NetworkEntry, Store_updateCount
             (updateCount (networkSystemClockContextEntry (timeSharedMemory_layout m)) + 1))]"
proof -
  let ?e = "networkSystemClockContextEntry (timeSharedMemory_layout m)"
  obtain item' where p: "UpdateTimeSharedMemoryItem (updateCount ?e) (context_entry ?e) v =
       Inr (updateCount ?e + 1, item',
            [Store_item ((unat (updateCount ?e) + 1) mod 2) v, DMB_ISHST,
             Store_updateCount (updateCount ?e + 1)])"
    and q: "array2_at ((unat (updateCount ?e) + 1) mod 2) item' = Inr v"
    using UpdateTimeSharedMemoryItem_ok [of "updateCount ?e" "context_entry ?e" v] by (elim exE conjE)
  show ?thesis
    unfolding UpdateNetworkSystemClockContext_def Let_def p using q by simp
qed

text \<open>
  C6. A direct publish with the counter at \<open>c\<close> and the value \<open>v\<close> never throws. It stores
  \<open>v\<close> into the slot \<open>(c + 1) mod 2\<close>, then executes the barrier \<open>DMB ISHST\<close>, then stores
  \<open>c + 1\<close> into the counter, in this order and nothing else; the other slot keeps its
  value. The new counter \<open>c + 1\<close> (in 32 bits) differs from \<open>c\<close> and the slot written
  differs from the slot of the publish before, whatever \<open>v\<close> is. The
  publish of a local context does this on the local entry and leaves the network entry as
  it is, and the other way round.
\<close>

theorem C6_direct_publish:
  "(\<exists>item'. UpdateTimeSharedMemoryItem c item v =
       Inr (c + 1, item', [Store_item ((unat c + 1) mod 2) v, DMB_ISHST, Store_updateCount (c + 1)])
     \<and> array2_at ((unat c + 1) mod 2) item' = Inr v
     \<and> array2_at (unat c mod 2) item' = array2_at (unat c mod 2) item)
   \<and> c + 1 \<noteq> c
   \<and> unat (c + 1) = (unat c + 1) mod 2 ^ 32
   \<and> (unat c + 1) mod 2 \<noteq> unat c mod 2
   \<and> (\<exists>m'. UpdateLocalSystemClockContext ctx m = Inr m'
     \<and> updateCount (localSystemClockContextEntry (timeSharedMemory_layout m'))
         = updateCount (localSystemClockContextEntry (timeSharedMemory_layout m)) + 1
     \<and> array2_at ((unat (updateCount (localSystemClockContextEntry (timeSharedMemory_layout m))) + 1) mod 2)
         (context_entry (localSystemClockContextEntry (timeSharedMemory_layout m'))) = Inr ctx
     \<and> networkSystemClockContextEntry (timeSharedMemory_layout m')
         = networkSystemClockContextEntry (timeSharedMemory_layout m)
     \<and> memOps m' = memOps m @
         [(LocalEntry, Store_item
             ((unat (updateCount (localSystemClockContextEntry (timeSharedMemory_layout m))) + 1) mod 2) ctx),
          (LocalEntry, DMB_ISHST),
          (LocalEntry, Store_updateCount
             (updateCount (localSystemClockContextEntry (timeSharedMemory_layout m)) + 1))])
   \<and> (\<exists>m'. UpdateNetworkSystemClockContext ctx m = Inr m'
     \<and> updateCount (networkSystemClockContextEntry (timeSharedMemory_layout m'))
         = updateCount (networkSystemClockContextEntry (timeSharedMemory_layout m)) + 1
     \<and> array2_at ((unat (updateCount (networkSystemClockContextEntry (timeSharedMemory_layout m))) + 1) mod 2)
         (context_entry (networkSystemClockContextEntry (timeSharedMemory_layout m'))) = Inr ctx
     \<and> localSystemClockContextEntry (timeSharedMemory_layout m')
         = localSystemClockContextEntry (timeSharedMemory_layout m)
     \<and> memOps m' = memOps m @
         [(NetworkEntry, Store_item
             ((unat (updateCount (networkSystemClockContextEntry (timeSharedMemory_layout m))) + 1) mod 2) ctx),
          (NetworkEntry, DMB_ISHST),
          (NetworkEntry, Store_updateCount
             (updateCount (networkSystemClockContextEntry (timeSharedMemory_layout m)) + 1))])"
proof -
  have adv: "c + 1 \<noteq> c" by simp
  have wrap: "unat (c + 1) = (unat c + 1) mod 2 ^ 32"
    by (simp add: unat_word_ariths)
  have flip: "(unat c + 1) mod 2 \<noteq> unat c mod 2"
    by presburger
  show ?thesis
    using UpdateTimeSharedMemoryItem_ok [of c item v] adv wrap flip
      UpdateLocalSystemClockContext_ok [of ctx m] UpdateNetworkSystemClockContext_ok [of ctx m]
    by (intro conjI)
qed

subsection \<open>Context writers\<close>

lemma Signal_fold: "fold (\<lambda>event acc. acc @ [event]) xs sig = sig @ xs"
  by (induction xs arbitrary: sig) simp_all

lemma SignalOperationEvent_eq: "SignalOperationEvent this sig = sig @ operationEventList this"
  by (simp add: SignalOperationEvent_def Signal_fold)

lemma UpdateBaseContext_eq:
  "UpdateBaseContext ctx this =
     (context_callback this \<noteq> Some ctx, this\<lparr>context_callback := Some ctx\<rparr>)"
  by (auto simp: UpdateBaseContext_def)

lemma Local_UpdateContext_outcome:
  "fst (LocalSystemClockContextWriter_UpdateContext ctx (this, w)) =
     (if context_callback this = Some ctx then Returns Success else Falls_off_end)"
proof -
  obtain m' where p: "UpdateLocalSystemClockContext ctx (timeSharedMemory w) = Inr m'"
    using UpdateLocalSystemClockContext_ok [of ctx "timeSharedMemory w"] by (elim exE conjE)
  show ?thesis
    by (simp add: LocalSystemClockContextWriter_UpdateContext_def UpdateBaseContext_eq p)
qed

lemma Network_UpdateContext_outcome:
  "fst (NetworkSystemClockContextWriter_UpdateContext ctx (this, w)) =
     (if context_callback this = Some ctx then Returns Success else Falls_off_end)"
proof -
  obtain m' where p: "UpdateNetworkSystemClockContext ctx (timeSharedMemory w) = Inr m'"
    using UpdateNetworkSystemClockContext_ok [of ctx "timeSharedMemory w"] by (elim exE conjE)
  show ?thesis
    by (simp add: NetworkSystemClockContextWriter_UpdateContext_def UpdateBaseContext_eq p)
qed

lemma Ephemeral_UpdateContext_outcome:
  "fst (EphemeralNetworkSystemClockContextWriter_UpdateContext ctx (this, w)) =
     (if context_callback this = Some ctx then Returns Success else Falls_off_end)"
  by (simp add: EphemeralNetworkSystemClockContextWriter_UpdateContext_def UpdateBaseContext_eq)

lemma UpdateContext_outcome:
  "fst (UpdateContext k ctx (this, w)) =
     (if context_callback this = Some ctx then Returns Success else Falls_off_end)"
  by (cases k)
    (simp_all add: Local_UpdateContext_outcome Network_UpdateContext_outcome
      Ephemeral_UpdateContext_outcome)

text \<open>
  C5. \<open>UpdateBaseContext\<close> returns false exactly when the context stored is the new one,
  and \<open>UpdateContext\<close> then returns success. In every other state \<open>UpdateContext\<close> of each
  of the three writers does not return a value: after the publish and the signals control
  reaches the closing brace of a function that returns \<open>Result\<close>. So it is on the first
  call of a writer that holds no context yet, the local, the network and the ephemeral one:
  the call the claim's pair of calls begins with has no result, and nothing is defined
  after it.
\<close>

theorem C5_UpdateContext_falls_off_end:
  "UpdateBaseContext ctx this
     = (context_callback this \<noteq> Some ctx, this\<lparr>context_callback := Some ctx\<rparr>)
   \<and> fst (UpdateContext k ctx (this, w))
     = (if context_callback this = Some ctx then Returns Success else Falls_off_end)
   \<and> context_callback example_callback = None
   \<and> fst (UpdateContext LocalSystemClockContextWriter example_context
            (example_callback, example_WriterWorld)) = Falls_off_end
   \<and> fst (UpdateContext NetworkSystemClockContextWriter example_context
            (example_callback, example_WriterWorld)) = Falls_off_end
   \<and> fst (UpdateContext EphemeralNetworkSystemClockContextWriter example_context
            (example_callback, example_WriterWorld)) = Falls_off_end"
proof -
  have none: "context_callback example_callback = None"
    by (simp add: example_callback_def)
  have first: "fst (UpdateContext k' example_context (example_callback, example_WriterWorld))
      = Falls_off_end" for k'
    using UpdateContext_outcome [of k' example_context example_callback example_WriterWorld]
    by (simp only: none) simp
  show ?thesis
    using UpdateBaseContext_eq [of ctx this] UpdateContext_outcome [of k ctx this w] none
      first [of LocalSystemClockContextWriter] first [of NetworkSystemClockContextWriter]
      first [of EphemeralNetworkSystemClockContextWriter]
    by (intro conjI)
qed

subsection \<open>Binary layout\<close>

lemma sizes:
  "UUID_t = (16, 16)" "SteadyClockTimePoint_t = (24, 1)" "SystemClockContext_t = (32, 1)"
  "SystemClockContextEntry_t = (72, 4)" "automaticCorrectionEnabledEntry_t = (5, 1)"
  by (simp_all add: UUID_t_def UUID_members_def SteadyClockTimePoint_t_def
      SteadyClockTimePoint_members_def SystemClockContext_t_def SystemClockContext_members_def
      SystemClockContextEntry_t_def SystemClockContextEntry_members_def
      automaticCorrectionEnabledEntry_t_def automaticCorrectionEnabledEntry_members_def
      struct_t_def struct_align_def align_up_def array_t_def sizeof_def alignof_def
      u8_t_def u32_t_def i64_t_def u64_t_def u128_t_def Let_def)

text \<open>
  C8. The region has 4096 bytes and the layout fits into it. In \<open>TimeSharedMemoryLayout\<close>
  the local entry is at offset 0x38, the network entry at 0x80 and the flag entry at 0xC8.
  An entry of contexts has 0x48 bytes: a 4 byte counter at 0, 4 bytes of padding at 4, two
  slots of 32 bytes from 8. The flag entry is a 4 byte counter at 0 and a 1 byte flag at 4.
  \<open>SteadyClockTimePoint\<close> has 24 bytes, 8 bytes of seconds at 0 and the 16 byte identifier
  at 8; \<open>SystemClockContext\<close> has 32 bytes. The offsets 0x80 and 0xC8 and the sizes 0x18 and
  0x20 are those the \<open>static_assert\<close>s of the sources demand.
\<close>

theorem C8_layout:
  "TimeSharedMemorySize = 4096
   \<and> sizeof TimeSharedMemoryLayout_t \<le> TimeSharedMemorySize
   \<and> offsetof True TimeSharedMemoryLayout_members ''localSystemClockContextEntry'' = Some 0x38
   \<and> offsetof True TimeSharedMemoryLayout_members ''networkSystemClockContextEntry'' = Some 0x80
   \<and> offsetof True TimeSharedMemoryLayout_members ''automaticCorrectionEnabledEntry'' = Some 0xC8
   \<and> sizeof SystemClockContextEntry_t = 0x48
   \<and> fst (place False 0 SystemClockContextEntry_members)
       = [(''updateCount'', 0), (''_pad_'', 4), (''context'', 8)]
   \<and> sizeof u32_t = 4
   \<and> sizeof (array_t SystemClockContext_t 2) = 2 * 32
   \<and> fst (place True 0 automaticCorrectionEnabledEntry_members)
       = [(''updateCount'', 0), (''automaticCorrectionEnabled'', 4)]
   \<and> sizeof u8_t = 1
   \<and> sizeof SteadyClockTimePoint_t = 24
   \<and> place True 0 SteadyClockTimePoint_members = ([(''timePoint'', 0), (''clockSourceId'', 8)], 24)
   \<and> sizeof i64_t = 8
   \<and> sizeof UUID_t = 16
   \<and> sizeof SystemClockContext_t = 32"
  by (simp add: sizes TimeSharedMemorySize_def TimeSharedMemoryLayout_t_def
      TimeSharedMemoryLayout_members_def offsetof_def SystemClockContextEntry_members_def
      automaticCorrectionEnabledEntry_members_def SteadyClockTimePoint_members_def
      struct_t_def struct_align_def align_up_def array_t_def sizeof_def alignof_def
      u8_t_def u32_t_def i64_t_def u64_t_def u128_t_def Let_def)

end
